theory Spec2Isabelle
  imports Main "HOL-Library.Word"
begin

section \<open>Strings of the host language\<close>

text \<open>
  A string of the source language is a finite sequence of 16-bit code units. Literals of
  the program (\<^verbatim>\<open>'Column'\<close>, \<^verbatim>\<open>'_'\<close>) are ASCII and are written through \<open>js\<close>.
\<close>

type_synonym jschar = "16 word"

type_synonym jsstring = "jschar list"

definition js :: "string \<Rightarrow> jsstring" where
  "js s = map of_char s"

text \<open>
  \<^verbatim>\<open>String.prototype.trim\<close> removes white space and line terminators from both ends:
  TAB, LF, VT, FF, CR, SPACE, NBSP, the space separators U+1680, U+2000..U+200A, U+202F,
  U+205F, U+3000, the separators U+2028 and U+2029, and the byte order mark U+FEFF.
\<close>

definition isWhiteSpace :: "jschar \<Rightarrow> bool" where
  "isWhiteSpace c \<longleftrightarrow>
     c \<in> set [0x0009, 0x000A, 0x000B, 0x000C, 0x000D, 0x0020, 0x00A0, 0x1680,
                0x2028, 0x2029, 0x202F, 0x205F, 0x3000, 0xFEFF]
     \<or> (0x2000 \<le> c \<and> c \<le> 0x200A)"

definition trim :: "jsstring \<Rightarrow> jsstring" where
  "trim s = rev (dropWhile isWhiteSpace (rev (dropWhile isWhiteSpace s)))"

text \<open>
  The template literals \<^verbatim>\<open>`Column${i + 1}`\<close> and \<^verbatim>\<open>`${key}_${count + 1}`\<close> render a positive
  integer (an array position or an occurrence count, far below \<open>10\<^sup>2\<^sup>1\<close>) in decimal.
\<close>

definition digitChar :: "nat \<Rightarrow> jschar" where
  "digitChar d = of_nat (48 + d)"

fun decimal :: "nat \<Rightarrow> jsstring" where
  "decimal n = (if n < 10 then [digitChar n] else decimal (n div 10) @ [digitChar (n mod 10)])"

declare decimal.simps [simp del]

section \<open>Cells, rows and grids\<close>

text \<open>
  A cell is \<^verbatim>\<open>unknown\<close> in the source; the decoder delivers strings, numbers, booleans and
  null/undefined (which \<^verbatim>\<open>??\<close> and \<^verbatim>\<open>== null\<close> do not tell apart). Numbers are IEEE doubles
  in the host language: their type \<open>'n\<close> and their conversion to a string are parameters
  of the model.
\<close>

datatype 'n cell = JNull | JString jsstring | JNumber 'n | JBoolean bool

type_synonym 'n row = "'n cell list"

type_synonym 'n grid = "'n row list"

text \<open>\<^verbatim>\<open>String(v ?? '')\<close>\<close>

fun stringOf :: "('n \<Rightarrow> jsstring) \<Rightarrow> 'n cell \<Rightarrow> jsstring" where
  "stringOf ns JNull = []"
| "stringOf ns (JString s) = s"
| "stringOf ns (JNumber n) = ns n"
| "stringOf ns (JBoolean b) = (if b then js ''true'' else js ''false'')"

text \<open>
  The host language's conversion of a number to a string, on the integers (below \<open>10\<^sup>2\<^sup>1\<close> in
  absolute value): the instance of the parameter \<open>ns\<close> that the examples use.
\<close>

definition showInt :: "int \<Rightarrow> jsstring" where
  "showInt k = (if k < 0 then js ''-'' @ decimal (nat (- k)) else decimal (nat k))"

section \<open>normalizeHeaders\<close>

text \<open>
  The first \<^verbatim>\<open>map\<close>: \<^verbatim>\<open>text = String(v ?? '').trim()\<close>, replaced by \<^verbatim>\<open>Column{i+1}\<close> when empty.
  The position \<open>i\<close> of the callback is threaded through the recursion.
\<close>

definition headerText :: "('n \<Rightarrow> jsstring) \<Rightarrow> nat \<Rightarrow> 'n cell \<Rightarrow> jsstring" where
  "headerText ns i v =
     (let text = trim (stringOf ns v)
      in if length text > 0 then text else js ''Column'' @ decimal (i + 1))"

primrec baseFrom :: "('n \<Rightarrow> jsstring) \<Rightarrow> nat \<Rightarrow> 'n row \<Rightarrow> jsstring list" where
  "baseFrom ns i [] = []"
| "baseFrom ns i (v # vs) = headerText ns i v # baseFrom ns (Suc i) vs"

text \<open>
  The second \<^verbatim>\<open>map\<close>, with the \<^verbatim>\<open>Map<string, number>\<close> named \<open>used\<close> passed along:
  \<^verbatim>\<open>count = used.get(key) ?? 0\<close> is \<open>seen used key\<close>, \<^verbatim>\<open>used.set(key, count + 1)\<close> the update of
  the map, and \<open>emitKey\<close> the value the callback returns.
\<close>

definition seen :: "(jsstring \<rightharpoonup> nat) \<Rightarrow> jsstring \<Rightarrow> nat" where
  "seen used key = (case used key of None \<Rightarrow> 0 | Some c \<Rightarrow> c)"

definition emitKey :: "jsstring \<Rightarrow> nat \<Rightarrow> jsstring" where
  "emitKey key count = (if count = 0 then key else key @ js ''_'' @ decimal (count + 1))"

primrec suffixKeys :: "(jsstring \<rightharpoonup> nat) \<Rightarrow> jsstring list \<Rightarrow> jsstring list" where
  "suffixKeys used [] = []"
| "suffixKeys used (key # ks) =
     (let count = seen used key
      in emitKey key count # suffixKeys (used(key \<mapsto> count + 1)) ks)"

definition base :: "('n \<Rightarrow> jsstring) \<Rightarrow> 'n row \<Rightarrow> jsstring list" where
  "base ns values = baseFrom ns 0 values"

definition normalizeHeaders :: "('n \<Rightarrow> jsstring) \<Rightarrow> 'n row \<Rightarrow> jsstring list" where
  "normalizeHeaders ns values = suffixKeys Map.empty (base ns values)"

section \<open>isRowEmpty\<close>

fun cellEmpty :: "'n cell \<Rightarrow> bool" where
  "cellEmpty JNull = True"
| "cellEmpty (JString s) = (length (trim s) = 0)"
| "cellEmpty _ = False"

definition isRowEmpty :: "'n row \<Rightarrow> bool" where
  "isRowEmpty row = list_all cellEmpty row"

section \<open>clampNumber\<close>

definition clampNumber :: "int \<Rightarrow> int \<Rightarrow> int \<Rightarrow> int" where
  "clampNumber v mn mx = min mx (max mn v)"

section \<open>Arrays and objects of the host language\<close>

text \<open>
  \<^verbatim>\<open>xs[i]\<close> is \<^verbatim>\<open>undefined\<close> (here \<open>None\<close>) outside \<open>0 .. length - 1\<close>; it never throws.
\<close>

definition js_index :: "'a list \<Rightarrow> int \<Rightarrow> 'a option" where
  "js_index xs i = (if 0 \<le> i \<and> i < int (length xs) then Some (xs ! nat i) else None)"

text \<open>
  \<^verbatim>\<open>xs.slice(start, end)\<close>: a negative bound counts from the end, both bounds are cut to
  \<open>0 .. length\<close>; \<^verbatim>\<open>xs.slice(start)\<close> runs to the end of the array.
\<close>

definition sliceBound :: "'a list \<Rightarrow> int \<Rightarrow> nat" where
  "sliceBound xs k =
     (let len = int (length xs)
      in nat (if k < 0 then max (len + k) 0 else min k len))"

definition js_slice :: "'a list \<Rightarrow> int \<Rightarrow> int \<Rightarrow> 'a list" where
  "js_slice xs start fin =
     (let from = sliceBound xs start; to = sliceBound xs fin
      in take (to - from) (drop from xs))"

definition js_slice_from :: "'a list \<Rightarrow> int \<Rightarrow> 'a list" where
  "js_slice_from xs start = drop (sliceBound xs start) xs"

text \<open>
  An object \<^verbatim>\<open>Record<string, unknown>\<close> created by \<^verbatim>\<open>{}\<close> is a finite map from keys to
  values. The assignment \<^verbatim>\<open>obj[k] = v\<close> creates or overwrites the own property \<open>k\<close>, with one
  exception of the host language: the key \<^verbatim>\<open>__proto__\<close> is an accessor inherited from
  \<^verbatim>\<open>Object.prototype\<close>, whose setter ignores every value that is neither an object nor
  \<^verbatim>\<open>null\<close>. The values assigned by the program are strings, numbers and booleans, so
  the assignment to that key leaves the object as it is.
\<close>

type_synonym 'n jsobject = "jsstring \<rightharpoonup> 'n cell"

definition obj_set :: "'n jsobject \<Rightarrow> jsstring \<Rightarrow> 'n cell \<Rightarrow> 'n jsobject" where
  "obj_set obj k v = (if k = js ''__proto__'' then obj else obj(k \<mapsto> v))"

section \<open>convertResult\<close>

datatype OutputMode = Objects | Arrays

record ConvertOptions =
  sheetName :: jsstring
  outputMode :: OutputMode
  headerRowNumber :: int
  skipEmptyRows :: bool
  pretty :: bool

text \<open>
  \<open>headerRowNumber\<close> is the number of the number input (\<^verbatim>\<open>Number(e.target.value || 1)\<close>). The
  model takes it to be an integer of any sign, the domain that the specification gives it;
  integers of this size are exact in the host language's numbers.
\<close>

text \<open>\<^verbatim>\<open>r[i] ?? ''\<close>: the cell, or the empty string when it is null or past the row's end.\<close>

definition cellOrEmpty :: "'n row \<Rightarrow> nat \<Rightarrow> 'n cell" where
  "cellOrEmpty r i =
     (case js_index r (int i) of
        None \<Rightarrow> JString []
      | Some JNull \<Rightarrow> JString []
      | Some c \<Rightarrow> c)"

text \<open>
  The loop \<^verbatim>\<open>for (let i = 0; i < headers.length; i++) obj[headers[i]] = r[i] ?? ''\<close>,
  started at \<open>i = 0\<close> on the empty object; \<open>assign\<close> is its body.
\<close>

definition assign :: "jsstring list \<Rightarrow> 'n row \<Rightarrow> nat \<Rightarrow> 'n jsobject \<Rightarrow> 'n jsobject" where
  "assign headers r i obj = obj_set obj (headers ! i) (cellOrEmpty r i)"

function objectLoop :: "jsstring list \<Rightarrow> 'n row \<Rightarrow> nat \<Rightarrow> 'n jsobject \<Rightarrow> 'n jsobject" where
  "objectLoop headers r i obj =
     (if i < length headers
      then objectLoop headers r (i + 1) (assign headers r i obj)
      else obj)"
  by pat_completeness auto
termination
  by (relation "measure (\<lambda>(headers, r, i, obj). length headers - i)") auto

declare objectLoop.simps [simp del]

definition rowObject :: "jsstring list \<Rightarrow> 'n row \<Rightarrow> 'n jsobject" where
  "rowObject headers r = objectLoop headers r 0 Map.empty"

text \<open>
  \<open>data\<close> is what \<^verbatim>\<open>JSON.stringify\<close> receives: the rows in arrays mode, the objects in
  objects mode.
\<close>

datatype 'n jsdata = ArrayData "'n grid" | ObjectData "'n jsobject list"

text \<open>
  The record returned by \<^verbatim>\<open>convertResult\<close>. The source returns \<open>json\<close>, \<open>previewRows\<close>,
  \<open>rowCount\<close> and \<open>headerRowIndex\<close>; the model also keeps the local \<open>data\<close> that \<open>json\<close> is
  the serialisation of.
\<close>

record 'n conversion =
  json :: jsstring
  data :: "'n jsdata"
  previewRows :: "'n grid"
  rowCount :: nat
  headerRowIndex :: int

text \<open>
  The body of \<^verbatim>\<open>convertResult\<close> from the grid \<open>rows\<close> on (lines 100 to 136).
  \<^verbatim>\<open>JSON.stringify\<close> belongs to the host language: it is the parameter \<open>stringify\<close>, applied to
  the data and the indentation.
\<close>

definition convertRows ::
  "('n jsdata \<Rightarrow> nat \<Rightarrow> jsstring) \<Rightarrow> ('n \<Rightarrow> jsstring) \<Rightarrow> ConvertOptions \<Rightarrow> 'n grid \<Rightarrow> 'n conversion" where
  "convertRows stringify ns options rows =
     (let hri = clampNumber (headerRowNumber options - 1) 0 (max 0 (int (length rows) - 1));
          indent = (if pretty options then 2 else 0)
      in if outputMode options = Arrays then
           (let exportRows = (if skipEmptyRows options then filter (\<lambda>r. \<not> isRowEmpty r) rows else rows)
            in \<lparr>json = stringify (ArrayData exportRows) indent,
                data = ArrayData exportRows,
                previewRows = js_slice exportRows 0 25,
                rowCount = length exportRows,
                headerRowIndex = hri\<rparr>)
         else
           (let headerRow = (case js_index rows hri of None \<Rightarrow> [] | Some r \<Rightarrow> r);
                headers = normalizeHeaders ns headerRow;
                dataRows = filter (\<lambda>r. if skipEmptyRows options then \<not> isRowEmpty r else True)
                             (js_slice_from rows (hri + 1));
                objects = map (rowObject headers) dataRows
            in \<lparr>json = stringify (ObjectData objects) indent,
                data = ObjectData objects,
                previewRows = headerRow # js_slice dataRows 0 24,
                rowCount = length objects,
                headerRowIndex = hri\<rparr>))"

text \<open>
  The guards before the grid is read: no workbook, an empty sheet name or a sheet that the
  workbook does not have give \<^verbatim>\<open>null\<close>. A workbook is modelled by the grid that
  \<^verbatim>\<open>XLSX.utils.sheet_to_json\<close> reads from each of its sheets.
\<close>

definition convertResult ::
  "('n jsdata \<Rightarrow> nat \<Rightarrow> jsstring) \<Rightarrow> ('n \<Rightarrow> jsstring) \<Rightarrow> ConvertOptions \<Rightarrow>
     (jsstring \<rightharpoonup> 'n grid) option \<Rightarrow> 'n conversion option" where
  "convertResult stringify ns options workbook =
     (case workbook of
        None \<Rightarrow> None
      | Some sheets \<Rightarrow>
          if sheetName options = [] then None
          else (case sheets (sheetName options) of
                  None \<Rightarrow> None
                | Some rows \<Rightarrow> Some (convertRows stringify ns options rows)))"


section \<open>The program as the runtime executes it\<close>

text \<open>
  The types of the source are erased when the program runs: a cell, a row and the header
  row are values of the host language, and an operation on a value of the wrong kind throws
  a \<^verbatim>\<open>TypeError\<close>. This second model of the same functions keeps those failures as values:
  a result is \<open>Inr\<close> of what the function returns or \<open>Inl TypeError\<close>. Its values are
  \<^verbatim>\<open>undefined\<close>, \<^verbatim>\<open>null\<close>, strings, numbers, booleans and arrays of such values.
\<close>

datatype error = TypeError

datatype 'n jsval =
  VUndefined | VNull | VString jsstring | VNumber 'n | VBoolean bool | VArray "'n jsval list"

text \<open>\<^verbatim>\<open>v == null\<close> and \<^verbatim>\<open>v ?? d\<close>\<close>

definition nullish :: "'n jsval \<Rightarrow> bool" where
  "nullish v \<longleftrightarrow> v = VUndefined \<or> v = VNull"

definition coalesce :: "'n jsval \<Rightarrow> 'n jsval \<Rightarrow> 'n jsval" where
  "coalesce v d = (if nullish v then d else v)"

text \<open>
  \<^verbatim>\<open>String(v)\<close>. An array is converted by \<^verbatim>\<open>join\<close>: its elements converted and separated by
  commas, \<^verbatim>\<open>undefined\<close> and \<^verbatim>\<open>null\<close> elements as the empty string.
\<close>

fun joinComma :: "jsstring list \<Rightarrow> jsstring" where
  "joinComma [] = []"
| "joinComma [s] = s"
| "joinComma (s # t # ss) = s @ js '','' @ joinComma (t # ss)"

fun toStringV :: "('n \<Rightarrow> jsstring) \<Rightarrow> 'n jsval \<Rightarrow> jsstring" where
  "toStringV ns VUndefined = js ''undefined''"
| "toStringV ns VNull = js ''null''"
| "toStringV ns (VString s) = s"
| "toStringV ns (VNumber n) = ns n"
| "toStringV ns (VBoolean b) = (if b then js ''true'' else js ''false'')"
| "toStringV ns (VArray xs) =
     joinComma (map (\<lambda>x. if x = VUndefined \<or> x = VNull then [] else toStringV ns x) xs)"

text \<open>
  \<^verbatim>\<open>v.trim()\<close>: only a string has the method. \<^verbatim>\<open>undefined\<close> and \<^verbatim>\<open>null\<close> have no properties,
  and on a number, a boolean or an array \<^verbatim>\<open>trim\<close> is not a function.
\<close>

definition trimMethod :: "'n jsval \<Rightarrow> error + jsstring" where
  "trimMethod v = (case v of VString s \<Rightarrow> Inr (trim s) | _ \<Rightarrow> Inl TypeError)"

text \<open>
  The receiver of \<^verbatim>\<open>map\<close>, \<^verbatim>\<open>every\<close> and \<^verbatim>\<open>filter\<close>: only an array has these methods.
\<close>

definition arrayReceiver :: "'n jsval \<Rightarrow> error + 'n jsval list" where
  "arrayReceiver v = (case v of VArray xs \<Rightarrow> Inr xs | _ \<Rightarrow> Inl TypeError)"

text \<open>
  \<^verbatim>\<open>xs[i]\<close> on an array, and \<^verbatim>\<open>v[i]\<close> on any value: \<^verbatim>\<open>undefined\<close> and \<^verbatim>\<open>null\<close> throw, an array
  and a string give the element or \<^verbatim>\<open>undefined\<close>, a number and a boolean give \<^verbatim>\<open>undefined\<close>.
\<close>

definition elementOf :: "'n jsval list \<Rightarrow> int \<Rightarrow> 'n jsval" where
  "elementOf xs i = (case js_index xs i of None \<Rightarrow> VUndefined | Some x \<Rightarrow> x)"

definition indexV :: "'n jsval \<Rightarrow> int \<Rightarrow> error + 'n jsval" where
  "indexV v i =
     (case v of
        VUndefined \<Rightarrow> Inl TypeError
      | VNull \<Rightarrow> Inl TypeError
      | VArray xs \<Rightarrow> Inr (elementOf xs i)
      | VString s \<Rightarrow> Inr (case js_index s i of None \<Rightarrow> VUndefined | Some c \<Rightarrow> VString [c])
      | _ \<Rightarrow> Inr VUndefined)"

text \<open>
  \<^verbatim>\<open>xs.filter(f)\<close> and \<^verbatim>\<open>xs.map(f)\<close> on an array, with a callback that may throw, and
  \<^verbatim>\<open>xs.every(f)\<close>, which stops at the first \<^verbatim>\<open>false\<close>.
\<close>

primrec filterD :: "('a \<Rightarrow> error + bool) \<Rightarrow> 'a list \<Rightarrow> error + 'a list" where
  "filterD f [] = Inr []"
| "filterD f (x # xs) =
     (case f x of
        Inl e \<Rightarrow> Inl e
      | Inr b \<Rightarrow> (case filterD f xs of Inl e \<Rightarrow> Inl e | Inr ys \<Rightarrow> Inr (if b then x # ys else ys)))"

primrec mapD :: "('a \<Rightarrow> error + 'b) \<Rightarrow> 'a list \<Rightarrow> error + 'b list" where
  "mapD f [] = Inr []"
| "mapD f (x # xs) =
     (case f x of
        Inl e \<Rightarrow> Inl e
      | Inr y \<Rightarrow> (case mapD f xs of Inl e \<Rightarrow> Inl e | Inr ys \<Rightarrow> Inr (y # ys)))"

primrec everyD :: "('a \<Rightarrow> error + bool) \<Rightarrow> 'a list \<Rightarrow> error + bool" where
  "everyD f [] = Inr True"
| "everyD f (x # xs) =
     (case f x of Inl e \<Rightarrow> Inl e | Inr b \<Rightarrow> if b then everyD f xs else Inr False)"

text \<open>\<^verbatim>\<open>normalizeHeaders\<close>: \<^verbatim>\<open>values.map\<close> needs an array; the callbacks cannot throw.\<close>

definition headerTextD :: "('n \<Rightarrow> jsstring) \<Rightarrow> nat \<Rightarrow> 'n jsval \<Rightarrow> jsstring" where
  "headerTextD ns i v =
     (let text = trim (toStringV ns (coalesce v (VString [])))
      in if length text > 0 then text else js ''Column'' @ decimal (i + 1))"

primrec baseFromD :: "('n \<Rightarrow> jsstring) \<Rightarrow> nat \<Rightarrow> 'n jsval list \<Rightarrow> jsstring list" where
  "baseFromD ns i [] = []"
| "baseFromD ns i (v # vs) = headerTextD ns i v # baseFromD ns (Suc i) vs"

definition normalizeHeadersD :: "('n \<Rightarrow> jsstring) \<Rightarrow> 'n jsval \<Rightarrow> error + jsstring list" where
  "normalizeHeadersD ns values =
     (case arrayReceiver values of
        Inl e \<Rightarrow> Inl e
      | Inr vs \<Rightarrow> Inr (suffixKeys Map.empty (baseFromD ns 0 vs)))"

text \<open>
  \<^verbatim>\<open>isRowEmpty\<close>: \<^verbatim>\<open>row.every\<close> needs an array, and \<^verbatim>\<open>cell.trim()\<close> is reached only behind the
  tests \<^verbatim>\<open>cell == null\<close> and \<^verbatim>\<open>typeof cell === 'string'\<close>.
\<close>

definition typeofString :: "'n jsval \<Rightarrow> bool" where
  "typeofString v = (case v of VString s \<Rightarrow> True | _ \<Rightarrow> False)"

definition cellEmptyD :: "'n jsval \<Rightarrow> error + bool" where
  "cellEmptyD cell =
     (if nullish cell then Inr True
      else if typeofString cell
        then (case trimMethod cell of Inl e \<Rightarrow> Inl e | Inr t \<Rightarrow> Inr (length t = 0))
      else Inr False)"

definition isRowEmptyD :: "'n jsval \<Rightarrow> error + bool" where
  "isRowEmptyD row =
     (case arrayReceiver row of Inl e \<Rightarrow> Inl e | Inr cells \<Rightarrow> everyD cellEmptyD cells)"

text \<open>
  The object of a row: \<^verbatim>\<open>r[i]\<close> throws when the row is \<^verbatim>\<open>undefined\<close> or \<^verbatim>\<open>null\<close>. The
  assignment to the key \<^verbatim>\<open>__proto__\<close> creates no property for any value.
\<close>

type_synonym 'n jsobjectD = "jsstring \<rightharpoonup> 'n jsval"

definition obj_setD :: "'n jsobjectD \<Rightarrow> jsstring \<Rightarrow> 'n jsval \<Rightarrow> 'n jsobjectD" where
  "obj_setD obj k v = (if k = js ''__proto__'' then obj else obj(k \<mapsto> v))"

definition assignD ::
  "jsstring list \<Rightarrow> 'n jsval \<Rightarrow> nat \<Rightarrow> 'n jsobjectD \<Rightarrow> error + 'n jsobjectD" where
  "assignD headers r i obj =
     (case indexV r (int i) of
        Inl e \<Rightarrow> Inl e
      | Inr c \<Rightarrow> Inr (obj_setD obj (headers ! i) (coalesce c (VString []))))"

function objectLoopD ::
  "jsstring list \<Rightarrow> 'n jsval \<Rightarrow> nat \<Rightarrow> 'n jsobjectD \<Rightarrow> error + 'n jsobjectD" where
  "objectLoopD headers r i obj =
     (if i < length headers
      then (case assignD headers r i obj of
              Inl e \<Rightarrow> Inl e
            | Inr obj' \<Rightarrow> objectLoopD headers r (i + 1) obj')
      else Inr obj)"
  by pat_completeness auto
termination
  by (relation "measure (\<lambda>(headers, r, i, obj). length headers - i)") auto

declare objectLoopD.simps [simp del]

definition rowObjectD :: "jsstring list \<Rightarrow> 'n jsval \<Rightarrow> error + 'n jsobjectD" where
  "rowObjectD headers r = objectLoopD headers r 0 Map.empty"

text \<open>
  \<^verbatim>\<open>convertResult\<close> from the grid on. \<open>rows\<close> is the array that \<^verbatim>\<open>XLSX.utils.sheet_to_json\<close>
  returns; its elements are values of any kind.
\<close>

datatype 'n jsdataD = ArrayDataD "'n jsval list" | ObjectDataD "'n jsobjectD list"

record 'n conversionD =
  jsonD :: jsstring
  dataD :: "'n jsdataD"
  previewRowsD :: "'n jsval list"
  rowCountD :: nat
  headerRowIndexD :: int

definition keepRowD :: "bool \<Rightarrow> 'n jsval \<Rightarrow> error + bool" where
  "keepRowD skip r =
     (if skip then (case isRowEmptyD r of Inl e \<Rightarrow> Inl e | Inr b \<Rightarrow> Inr (\<not> b)) else Inr True)"

definition convertRowsD ::
  "('n jsdataD \<Rightarrow> nat \<Rightarrow> jsstring) \<Rightarrow> ('n \<Rightarrow> jsstring) \<Rightarrow> ConvertOptions \<Rightarrow> 'n jsval list
     \<Rightarrow> error + 'n conversionD" where
  "convertRowsD stringify ns options rows =
     (let hri = clampNumber (headerRowNumber options - 1) 0 (max 0 (int (length rows) - 1));
          indent = (if pretty options then 2 else 0)
      in if outputMode options = Arrays then
           (case (if skipEmptyRows options then filterD (keepRowD True) rows else Inr rows) of
              Inl e \<Rightarrow> Inl e
            | Inr exportRows \<Rightarrow>
                Inr \<lparr>jsonD = stringify (ArrayDataD exportRows) indent,
                     dataD = ArrayDataD exportRows,
                     previewRowsD = js_slice exportRows 0 25,
                     rowCountD = length exportRows,
                     headerRowIndexD = hri\<rparr>)
         else
           (let headerRow = coalesce (elementOf rows hri) (VArray [])
            in case normalizeHeadersD ns headerRow of
                 Inl e \<Rightarrow> Inl e
               | Inr headers \<Rightarrow>
                   (case filterD (keepRowD (skipEmptyRows options)) (js_slice_from rows (hri + 1)) of
                      Inl e \<Rightarrow> Inl e
                    | Inr dataRows \<Rightarrow>
                        (case mapD (rowObjectD headers) dataRows of
                           Inl e \<Rightarrow> Inl e
                         | Inr objects \<Rightarrow>
                             Inr \<lparr>jsonD = stringify (ObjectDataD objects) indent,
                                  dataD = ObjectDataD objects,
                                  previewRowsD = headerRow # js_slice dataRows 0 24,
                                  rowCountD = length objects,
                                  headerRowIndexD = hri\<rparr>))))"

definition convertResultD ::
  "('n jsdataD \<Rightarrow> nat \<Rightarrow> jsstring) \<Rightarrow> ('n \<Rightarrow> jsstring) \<Rightarrow> ConvertOptions \<Rightarrow>
     (jsstring \<rightharpoonup> 'n jsval list) option \<Rightarrow> error + 'n conversionD option" where
  "convertResultD stringify ns options workbook =
     (case workbook of
        None \<Rightarrow> Inr None
      | Some sheets \<Rightarrow>
          if sheetName options = [] then Inr None
          else (case sheets (sheetName options) of
                  None \<Rightarrow> Inr None
                | Some rows \<Rightarrow>
                    (case convertRowsD stringify ns options rows of
                       Inl e \<Rightarrow> Inl e
                     | Inr res \<Rightarrow> Inr (Some res))))"

text \<open>
  A valid grid: every row is an array and every cell is \<^verbatim>\<open>undefined\<close>, \<^verbatim>\<open>null\<close>, a string, a
  number or a boolean. \<open>toCell\<close>, \<open>toRow\<close> and \<open>toData\<close> read such values as the cells, rows and
  data of the typed model.
\<close>

definition scalar :: "'n jsval \<Rightarrow> bool" where
  "scalar v = (case v of VArray xs \<Rightarrow> False | _ \<Rightarrow> True)"

definition validRow :: "'n jsval \<Rightarrow> bool" where
  "validRow v = (case v of VArray xs \<Rightarrow> list_all scalar xs | _ \<Rightarrow> False)"

definition validGrid :: "'n jsval list \<Rightarrow> bool" where
  "validGrid rows = list_all validRow rows"

fun toCell :: "'n jsval \<Rightarrow> 'n cell" where
  "toCell (VString s) = JString s"
| "toCell (VNumber n) = JNumber n"
| "toCell (VBoolean b) = JBoolean b"
| "toCell _ = JNull"

definition toRow :: "'n jsval \<Rightarrow> 'n row" where
  "toRow v = (case v of VArray xs \<Rightarrow> map toCell xs | _ \<Rightarrow> [])"

definition toObject :: "'n jsobjectD \<Rightarrow> 'n jsobject" where
  "toObject obj = (\<lambda>k. map_option toCell (obj k))"

definition toData :: "'n jsdataD \<Rightarrow> 'n jsdata" where
  "toData d =
     (case d of
        ArrayDataD rows \<Rightarrow> ArrayData (map toRow rows)
      | ObjectDataD objects \<Rightarrow> ObjectData (map toObject objects))"

section \<open>Array reads and slices\<close>

lemma sliceBound_nonneg: "0 \<le> k \<Longrightarrow> sliceBound xs k = min (nat k) (length xs)"
  by (auto simp add: sliceBound_def Let_def min_def)

lemma js_slice_take: "0 \<le> n \<Longrightarrow> js_slice xs 0 n = take (nat n) xs"
  by (simp add: js_slice_def sliceBound_nonneg Let_def min_def)

lemma js_slice_from_drop: "0 \<le> k \<Longrightarrow> js_slice_from xs k = drop (nat k) xs"
  by (simp add: js_slice_from_def sliceBound_nonneg min_def)

section \<open>The clamp and the header row index\<close>

lemma clampNumber_bounds: "mn \<le> mx \<Longrightarrow> mn \<le> clampNumber v mn mx \<and> clampNumber v mn mx \<le> mx"
  by (simp add: clampNumber_def)

lemma clampNumber_id: "mn \<le> v \<Longrightarrow> v \<le> mx \<Longrightarrow> clampNumber v mn mx = v"
  by (simp add: clampNumber_def)

lemma headerRowIndex_convertRows:
  "headerRowIndex (convertRows stringify ns options rows) =
     clampNumber (headerRowNumber options - 1) 0 (max 0 (int (length rows) - 1))"
  by (simp add: convertRows_def Let_def)

lemma hri_range:
  fixes rows :: "'a list" and h :: int
  defines "hri \<equiv> clampNumber h 0 (max 0 (int (length rows) - 1))"
  shows "0 \<le> hri" and "rows \<noteq> [] \<Longrightarrow> hri < int (length rows)" and "rows = [] \<Longrightarrow> hri = 0"
  unfolding hri_def by (simp_all add: clampNumber_def)

text \<open>
  C4. For integers \<open>v\<close>, \<open>mn\<close>, \<open>mx\<close> with \<open>0 \<le> mn \<le> mx\<close>, \<open>clampNumber v mn mx\<close> lies in
  \<open>[mn, mx]\<close> and is \<open>v\<close> when \<open>v\<close> is in that range already. The header row index that
  \<open>convertRows\<close> returns is \<open>clampNumber (headerRowNumber - 1) 0 (max 0 (length rows - 1))\<close>;
  it is never negative, it is a position of the grid (the read \<open>rows[hri]\<close> is defined) when
  the grid has a row, and it is \<open>0\<close> for the empty grid, whatever the header row number.
\<close>

theorem clampNumber_valid_index:
  assumes "0 \<le> mn" and "mn \<le> mx"
  shows "mn \<le> clampNumber v mn mx \<and> clampNumber v mn mx \<le> mx
       \<and> (mn \<le> v \<and> v \<le> mx \<longrightarrow> clampNumber v mn mx = v)
       \<and> (let hri = headerRowIndex (convertRows stringify ns options rows)
          in hri = clampNumber (headerRowNumber options - 1) 0 (max 0 (int (length rows) - 1))
           \<and> 0 \<le> hri
           \<and> (rows \<noteq> [] \<longrightarrow> hri < int (length rows) \<and> js_index rows hri = Some (rows ! nat hri))
           \<and> (rows = [] \<longrightarrow> hri = 0))"
proof -
  have a: "mn \<le> clampNumber v mn mx \<and> clampNumber v mn mx \<le> mx"
    using assms(2) by (rule clampNumber_bounds)
  have b: "mn \<le> v \<and> v \<le> mx \<longrightarrow> clampNumber v mn mx = v"
    by (simp add: clampNumber_id)
  define hri where "hri = clampNumber (headerRowNumber options - 1) 0 (max 0 (int (length rows) - 1))"
  have c: "0 \<le> hri" "rows \<noteq> [] \<longrightarrow> hri < int (length rows)" "rows = [] \<longrightarrow> hri = 0"
    unfolding hri_def
    using hri_range[where h = "headerRowNumber options - 1" and rows = rows] by simp_all
  have d: "rows \<noteq> [] \<longrightarrow> js_index rows hri = Some (rows ! nat hri)"
    using c by (simp add: js_index_def)
  show ?thesis
    using a b c d by (simp add: headerRowIndex_convertRows Let_def hri_def)
qed

theorem clampNumber_valid_index_witness:
  "clampNumber 98 0 2 = 2 \<and> clampNumber 1 0 2 = 1 \<and> clampNumber (- 6) 0 2 = 0
   \<and> headerRowIndex (convertRows (\<lambda>d n. []) showInt
        \<lparr>sheetName = js ''S'', outputMode = Objects, headerRowNumber = 99,
         skipEmptyRows = True, pretty = True\<rparr>
        [[JString (js ''a'')], [JString (js ''b'')], [JString (js ''c'')]]) = 2"
  using clampNumber_valid_index[where mn = 0 and mx = 2 and v = 98 and stringify = "\<lambda>d n. []"
          and ns = showInt
          and options = "\<lparr>sheetName = js ''S'', outputMode = Objects, headerRowNumber = 99,
                          skipEmptyRows = True, pretty = True\<rparr>"
          and rows = "[[JString (js ''a'')], [JString (js ''b'')], [JString (js ''c'')]]"]
  by (simp add: clampNumber_def Let_def)

section \<open>The row filter\<close>

lemma cellEmpty_iff: "cellEmpty c \<longleftrightarrow> c = JNull \<or> (\<exists>s. c = JString s \<and> length (trim s) = 0)"
  by (cases c) simp_all

lemma trim_blank: "trim (js ''  '') = []" "trim [] = []"
  by (simp_all add: trim_def js_def isWhiteSpace_def)

text \<open>
  C5. \<open>isRowEmpty row\<close> holds iff every cell of the row is null/absent or a string whose
  trimmed form has length zero; a cell that is neither null nor a string (the number \<open>0\<close>
  and the boolean \<open>false\<close> included) makes the row non-empty; the row \<open>[]\<close> is empty.
\<close>

theorem isRowEmpty_iff:
  "(isRowEmpty row \<longleftrightarrow> (\<forall>c \<in> set row. c = JNull \<or> (\<exists>s. c = JString s \<and> length (trim s) = 0)))
   \<and> ((\<exists>c \<in> set row. c \<noteq> JNull \<and> (\<forall>s. c \<noteq> JString s)) \<longrightarrow> \<not> isRowEmpty row)
   \<and> isRowEmpty ([] :: 'n row)
   \<and> \<not> isRowEmpty [JNumber n] \<and> \<not> isRowEmpty [JBoolean False :: 'n cell]"
proof -
  have "isRowEmpty row \<longleftrightarrow> (\<forall>c \<in> set row. c = JNull \<or> (\<exists>s. c = JString s \<and> length (trim s) = 0))"
    by (simp add: isRowEmpty_def list_all_iff cellEmpty_iff)
  moreover from this have "(\<exists>c \<in> set row. c \<noteq> JNull \<and> (\<forall>s. c \<noteq> JString s)) \<longrightarrow> \<not> isRowEmpty row"
    by blast
  ultimately show ?thesis by (simp add: isRowEmpty_def)
qed

theorem isRowEmpty_iff_witness:
  "isRowEmpty [JNull, JString [], JString (js ''  '') :: int cell]
   \<and> \<not> isRowEmpty [JString (js ''  ''), JNumber (0::int)]
   \<and> \<not> isRowEmpty [JString (js ''a'') :: int cell]"
  using isRowEmpty_iff[of "[JNull, JString [], JString (js ''  '') :: int cell]" "0::int"]
        isRowEmpty_iff[of "[JString (js ''  ''), JNumber (0::int)]" "0::int"]
        isRowEmpty_iff[of "[JString (js ''a'') :: int cell]" "0::int"]
  by (auto simp add: trim_blank trim_def js_def isWhiteSpace_def)

section \<open>The header normaliser\<close>

lemma length_baseFrom: "length (baseFrom ns i vs) = length vs"
  by (induction vs arbitrary: i) simp_all

lemma length_suffixKeys: "length (suffixKeys used ks) = length ks"
  by (induction ks arbitrary: used) (simp_all add: Let_def)

lemma length_base: "length (base ns row) = length row"
  by (simp add: base_def length_baseFrom)

lemma baseFrom_nth: "i < length vs \<Longrightarrow> baseFrom ns k vs ! i = headerText ns (k + i) (vs ! i)"
proof (induction vs arbitrary: k i)
  case Nil
  then show ?case by simp
next
  case (Cons v vs)
  then show ?case by (cases i) simp_all
qed

lemma seen_upd: "seen (used(k \<mapsto> c)) key = (if key = k then c else seen used key)"
  by (simp add: seen_def)

lemma seen_empty: "seen Map.empty key = 0"
  by (simp add: seen_def)

lemma suffixKeys_Cons:
  "suffixKeys used (key # ks) =
     emitKey key (seen used key) # suffixKeys (used(key \<mapsto> seen used key + 1)) ks"
  by (simp add: Let_def)

text \<open>
  The key emitted at position \<open>i\<close>: the occurrences counted are those the map held at the
  start plus those to the left of \<open>i\<close>.
\<close>

lemma suffixKeys_nth:
  "i < length ks \<Longrightarrow>
     suffixKeys used ks ! i = emitKey (ks ! i) (seen used (ks ! i) + count_list (take i ks) (ks ! i))"
proof (induction ks arbitrary: used i)
  case Nil
  then show ?case by simp
next
  case (Cons key ks)
  show ?case
  proof (cases i)
    case 0
    then show ?thesis by (simp only: suffixKeys_Cons) simp
  next
    case (Suc j)
    with Cons.prems have j: "j < length ks" by simp
    have "suffixKeys (used(key \<mapsto> seen used key + 1)) ks ! j
            = emitKey (ks ! j) (seen (used(key \<mapsto> seen used key + 1)) (ks ! j)
                                 + count_list (take j ks) (ks ! j))"
      by (rule Cons.IH[OF j])
    also have "seen (used(key \<mapsto> seen used key + 1)) (ks ! j) + count_list (take j ks) (ks ! j)
            = seen used (ks ! j) + count_list (take i (key # ks)) ((key # ks) ! i)"
      using Suc by (simp add: seen_upd)
    finally show ?thesis
      using Suc by (simp only: suffixKeys_Cons nth_Cons_Suc)
  qed
qed

lemma normalizeHeaders_nth:
  "i < length row \<Longrightarrow>
     normalizeHeaders ns row ! i =
       emitKey (base ns row ! i) (count_list (take i (base ns row)) (base ns row ! i))"
  by (simp add: normalizeHeaders_def suffixKeys_nth seen_empty length_base)

lemmas header_eval =
  normalizeHeaders_def base_def headerText_def trim_def isWhiteSpace_def js_def emitKey_def
  seen_def decimal.simps digitChar_def Let_def

lemma normalizeHeaders_XXX:
  "normalizeHeaders ns [JString (js ''X''), JString (js ''X''), JString (js ''X'')]
     = [js ''X'', js ''X_2'', js ''X_3'']"
  by (simp add: header_eval)

text \<open>
  C2. At every position \<open>i\<close> the key is the trimmed text of the cell, or \<open>Column{i+1}\<close> when
  that text is empty (the entries of \<open>base\<close>). With \<open>n\<close> the number of occurrences of that
  key among the keys at positions \<open>0 .. i\<close>, the key is emitted unchanged when \<open>n = 1\<close> (its
  first occurrence) and with the suffix \<open>_n\<close> otherwise. The count is over the keys before
  any suffix is put on them, not over the keys already emitted. In particular
  \<open>["X","X","X"]\<close> gives \<open>["X","X_2","X_3"]\<close>.
\<close>

theorem normalizeHeaders_occurrence_suffix:
  assumes "i < length row"
  shows "base ns row ! i =
           (let text = trim (stringOf ns (row ! i))
            in if text \<noteq> [] then text else js ''Column'' @ decimal (i + 1))
       \<and> normalizeHeaders ns row ! i =
           (let key = base ns row ! i; n = count_list (take (Suc i) (base ns row)) key
            in if n = 1 then key else key @ js ''_'' @ decimal n)
       \<and> normalizeHeaders ns [JString (js ''X''), JString (js ''X''), JString (js ''X'')]
           = [js ''X'', js ''X_2'', js ''X_3'']"
proof -
  have b: "i < length (base ns row)" using assms by (simp add: length_base)
  have 1: "base ns row ! i =
           (let text = trim (stringOf ns (row ! i))
            in if text \<noteq> [] then text else js ''Column'' @ decimal (i + 1))"
    using assms by (simp add: base_def baseFrom_nth headerText_def Let_def)
  have "count_list (take (Suc i) (base ns row)) (base ns row ! i)
          = count_list (take i (base ns row)) (base ns row ! i) + 1"
    using b by (simp add: take_Suc_conv_app_nth)
  then have 2: "normalizeHeaders ns row ! i =
           (let key = base ns row ! i; n = count_list (take (Suc i) (base ns row)) key
            in if n = 1 then key else key @ js ''_'' @ decimal n)"
    using assms by (simp add: normalizeHeaders_nth emitKey_def Let_def)
  show ?thesis using 1 2 normalizeHeaders_XXX by blast
qed

theorem normalizeHeaders_occurrence_suffix_witness:
  "base showInt [JString (js ''X''), JNull, JString (js '' X '')] ! 1 = js ''Column2''
   \<and> normalizeHeaders showInt [JString (js ''X''), JNull, JString (js '' X '')] ! 1 = js ''Column2''
   \<and> base showInt [JString (js ''X''), JNull, JString (js '' X '')] ! 2 = js ''X''
   \<and> normalizeHeaders showInt [JString (js ''X''), JNull, JString (js '' X '')] ! 2 = js ''X_2''"
  using normalizeHeaders_occurrence_suffix[of 1 "[JString (js ''X''), JNull, JString (js '' X '')]" showInt]
        normalizeHeaders_occurrence_suffix[of 2 "[JString (js ''X''), JNull, JString (js '' X '')]" showInt]
  by (simp add: header_eval)


text \<open>
  C1, the defect: a key that is emitted with a suffix can collide with a key of the row.
  The header row \<open>["X","X_2","X"]\<close> gives \<open>["X","X_2","X_2"]\<close>, which has a duplicate.
\<close>

theorem normalizeHeaders_duplicate:
  "normalizeHeaders ns [JString (js ''X''), JString (js ''X_2''), JString (js ''X'')]
     = [js ''X'', js ''X_2'', js ''X_2'']
   \<and> \<not> distinct (normalizeHeaders ns [JString (js ''X''), JString (js ''X_2''), JString (js ''X'')])"
  by (simp add: header_eval)

text \<open>
  The part of C1 that holds: the result has one key for each cell of the header row, and
  the key at position \<open>i\<close> is made from the cell at position \<open>i\<close>.
\<close>

theorem normalizeHeaders_length_preserved:
  "length (normalizeHeaders ns row) = length row
   \<and> map (\<lambda>k. take (length (base ns row ! k)) (normalizeHeaders ns row ! k)) [0..<length row]
       = base ns row"
proof -
  have l: "length (normalizeHeaders ns row) = length row"
    by (simp add: normalizeHeaders_def length_suffixKeys length_base)
  have "map (\<lambda>k. take (length (base ns row ! k)) (normalizeHeaders ns row ! k)) [0..<length row]
          = map (\<lambda>k. base ns row ! k) [0..<length row]"
    by (rule map_cong) (simp_all add: normalizeHeaders_nth emitKey_def)
  also have "\<dots> = base ns row"
    using map_nth[of "base ns row"] by (simp add: length_base)
  finally show ?thesis using l by simp
qed

lemma suffixKeys_fresh:
  "distinct ks \<Longrightarrow> (\<forall>k \<in> set ks. used k = None) \<Longrightarrow> suffixKeys used ks = ks"
proof (induction ks arbitrary: used)
  case Nil
  then show ?case by simp
next
  case (Cons key ks)
  have "suffixKeys (used(key \<mapsto> 1)) ks = ks"
    using Cons.prems by (intro Cons.IH) auto
  with Cons.prems show ?case by (simp add: emitKey_def seen_def)
qed

lemma baseFrom_nonblank:
  "(\<forall>v \<in> set vs. trim (stringOf ns v) \<noteq> []) \<Longrightarrow> baseFrom ns i vs = map (\<lambda>v. trim (stringOf ns v)) vs"
  by (induction vs arbitrary: i) (simp_all add: headerText_def)

text \<open>
  C8, as amended. If no two entries of the header row are equal after conversion to a
  string and trimming, and no entry is empty, whitespace-only or null after that, the
  result is the list of the converted and trimmed entries, in the same order.
\<close>

theorem normalizeHeaders_stable:
  assumes "distinct (map (\<lambda>v. trim (stringOf ns v)) row)"
    and "\<forall>v \<in> set row. trim (stringOf ns v) \<noteq> []"
  shows "normalizeHeaders ns row = map (\<lambda>v. trim (stringOf ns v)) row"
  using assms by (simp add: normalizeHeaders_def base_def baseFrom_nonblank suffixKeys_fresh)

theorem normalizeHeaders_stable_witness:
  "normalizeHeaders showInt [JString (js '' Name ''), JNumber 5, JBoolean True]
     = [js ''Name'', js ''5'', js ''true'']"
  using normalizeHeaders_stable[of showInt "[JString (js '' Name ''), JNumber 5, JBoolean True]"]
  by (simp add: trim_def isWhiteSpace_def js_def showInt_def decimal.simps digitChar_def)

text \<open>
  The claim as it is written fails: the entries \<open>" X"\<close> and \<open>"X"\<close> are different strings,
  neither empty nor whitespace-only, and the second one comes back with a suffix.
\<close>

theorem normalizeHeaders_stable_counterexample:
  "distinct [JString (js '' X''), JString (js ''X'') :: int cell]
   \<and> \<not> cellEmpty (JString (js '' X'') :: int cell) \<and> \<not> cellEmpty (JString (js ''X'') :: int cell)
   \<and> map (\<lambda>v. trim (stringOf showInt v)) [JString (js '' X''), JString (js ''X'')] = [js ''X'', js ''X'']
   \<and> normalizeHeaders showInt [JString (js '' X''), JString (js ''X'')] = [js ''X'', js ''X_2'']
   \<and> normalizeHeaders showInt [JString (js '' X''), JString (js ''X'')]
        \<noteq> map (\<lambda>v. trim (stringOf showInt v)) [JString (js '' X''), JString (js ''X'')]"
  by (simp add: header_eval)

section \<open>The object of a row\<close>

lemma objectLoop_fold:
  "objectLoop headers r i obj = fold (assign headers r) [i..<length headers] obj"
proof (induction headers r i obj rule: objectLoop.induct)
  case (1 headers r i obj)
  show ?case
  proof (cases "i < length headers")
    case True
    then show ?thesis
      using 1 by (subst objectLoop.simps) (simp add: upt_conv_Cons)
  next
    case False
    then show ?thesis by (subst objectLoop.simps) simp
  qed
qed

lemma rowObject_fold: "rowObject headers r = fold (assign headers r) [0..<length headers] Map.empty"
  by (simp add: rowObject_def objectLoop_fold)

lemma fold_assign_other:
  "(\<forall>j \<in> set idxs. headers ! j \<noteq> k) \<Longrightarrow> fold (assign headers r) idxs obj k = obj k"
  by (induction idxs arbitrary: obj) (auto simp add: assign_def obj_set_def)

lemma fold_assign_proto:
  "fold (assign headers r) idxs obj (js ''__proto__'') = obj (js ''__proto__'')"
  by (induction idxs arbitrary: obj) (simp_all add: assign_def obj_set_def)

lemma fold_assign_dom:
  "dom (fold (assign headers r) idxs obj) \<subseteq> dom obj \<union> (\<lambda>j. headers ! j) ` set idxs"
proof (induction idxs arbitrary: obj)
  case Nil
  then show ?case by simp
next
  case (Cons j idxs)
  have "dom (assign headers r j obj) \<subseteq> insert (headers ! j) (dom obj)"
    by (auto simp add: assign_def obj_set_def split: if_splits)
  with Cons[of "assign headers r j obj"] show ?case by auto
qed

lemma rowObject_dom: "dom (rowObject headers r) \<subseteq> set headers"
proof -
  have "(\<lambda>j. headers ! j) ` set [0..<length headers] \<subseteq> set headers" by auto
  with fold_assign_dom[of headers r "[0..<length headers]" Map.empty] show ?thesis
    by (simp add: rowObject_fold)
qed

lemma rowObject_last:
  assumes j: "j < length headers"
    and last: "\<forall>m. j < m \<and> m < length headers \<longrightarrow> headers ! m \<noteq> headers ! j"
    and np: "headers ! j \<noteq> js ''__proto__''"
  shows "rowObject headers r (headers ! j) = Some (cellOrEmpty r j)"
proof -
  have split: "[0..<length headers] = [0..<j] @ j # [Suc j..<length headers]"
    using j by (metis le0 upt_add_eq_append upt_conv_Cons less_imp_le_nat le_add_diff_inverse)
  have tail: "\<forall>m \<in> set [Suc j..<length headers]. headers ! m \<noteq> headers ! j"
    using last by auto
  show ?thesis
    unfolding rowObject_fold split
    using np by (simp add: fold_assign_other[OF tail] assign_def obj_set_def)
qed

lemma rowObject_absent:
  "k \<notin> set headers \<or> k = js ''__proto__'' \<Longrightarrow> rowObject headers r k = None"
proof (cases "k = js ''__proto__''")
  case True
  then show ?thesis by (simp add: rowObject_fold fold_assign_proto)
next
  case False
  assume "k \<notin> set headers \<or> k = js ''__proto__''"
  with False have "k \<notin> set headers" by simp
  then have "k \<notin> dom (rowObject headers r)" using rowObject_dom by blast
  then show ?thesis by blast
qed

lemma last_position:
  assumes "k \<in> set xs"
  shows "\<exists>j < length xs. xs ! j = k \<and> (\<forall>m. j < m \<and> m < length xs \<longrightarrow> xs ! m \<noteq> k)"
proof -
  from split_list_last[OF assms] obtain ys zs where xs: "xs = ys @ k # zs" and nz: "k \<notin> set zs"
    by blast
  have "xs ! length ys = k" by (simp add: xs)
  moreover have "length ys < length xs" by (simp add: xs)
  moreover have "\<forall>m. length ys < m \<and> m < length xs \<longrightarrow> xs ! m \<noteq> k"
  proof (intro allI impI)
    fix m assume m: "length ys < m \<and> m < length xs"
    then have "xs ! m = zs ! (m - Suc (length ys))" by (auto simp add: xs nth_append nth_Cons')
    moreover have "m - Suc (length ys) < length zs" using m by (auto simp add: xs)
    ultimately show "xs ! m \<noteq> k" using nz by (metis nth_mem)
  qed
  ultimately show ?thesis by blast
qed

lemma cellOrEmpty_take: "j < n \<Longrightarrow> cellOrEmpty (take n r) j = cellOrEmpty r j"
  by (simp add: cellOrEmpty_def js_index_def)


lemma rowObject_cong:
  assumes "\<forall>j < length headers. (\<forall>m. j < m \<and> m < length headers \<longrightarrow> headers ! m \<noteq> headers ! j)
             \<longrightarrow> cellOrEmpty r j = cellOrEmpty r' j"
  shows "rowObject headers r = rowObject headers r'"
proof (rule ext)
  fix k
  show "rowObject headers r k = rowObject headers r' k"
  proof (cases "k \<notin> set headers \<or> k = js ''__proto__''")
    case True
    then show ?thesis by (simp add: rowObject_absent)
  next
    case False
    then obtain j where j: "j < length headers" "headers ! j = k"
      "\<forall>m. j < m \<and> m < length headers \<longrightarrow> headers ! m \<noteq> headers ! j"
      using last_position[of k headers] by auto
    with False have "rowObject headers r k = Some (cellOrEmpty r j)"
      "rowObject headers r' k = Some (cellOrEmpty r' j)"
      using rowObject_last[of j headers] by auto
    with assms j show ?thesis by simp
  qed
qed

lemma rowObject_take: "rowObject headers (take (length headers) r) = rowObject headers r"
  by (rule rowObject_cong) (simp add: cellOrEmpty_take)


section \<open>Keys that are emitted twice\<close>






section \<open>The conversion\<close>

lemma headerRow_read:
  fixes rows :: "'a list list"
  assumes "hri = clampNumber h 0 (max 0 (int (length rows) - 1))"
  shows "(case js_index rows hri of None \<Rightarrow> [] | Some r \<Rightarrow> r) = (if rows = [] then [] else rows ! nat hri)"
  using hri_range[where h = h and rows = rows] assms by (auto simp add: js_index_def)

lemma convertRows_Arrays:
  assumes "outputMode options = Arrays"
  shows "data (convertRows stringify ns options rows)
           = ArrayData (if skipEmptyRows options then filter (\<lambda>r. \<not> isRowEmpty r) rows else rows)"
    and "previewRows (convertRows stringify ns options rows)
           = take 25 (if skipEmptyRows options then filter (\<lambda>r. \<not> isRowEmpty r) rows else rows)"
    and "rowCount (convertRows stringify ns options rows)
           = length (if skipEmptyRows options then filter (\<lambda>r. \<not> isRowEmpty r) rows else rows)"
  using assms by (simp_all add: convertRows_def Let_def js_slice_take)

lemma convertRows_Objects:
  fixes rows :: "'n grid" and options :: ConvertOptions
  assumes "outputMode options = Objects"
  defines "hri \<equiv> clampNumber (headerRowNumber options - 1) 0 (max 0 (int (length rows) - 1))"
  defines "headerRow \<equiv> (if rows = [] then [] else rows ! nat hri)"
  defines "dataRows \<equiv> filter (\<lambda>r. skipEmptyRows options \<longrightarrow> \<not> isRowEmpty r) (drop (nat hri + 1) rows)"
  shows "data (convertRows stringify ns options rows)
           = ObjectData (map (rowObject (normalizeHeaders ns headerRow)) dataRows)"
    and "previewRows (convertRows stringify ns options rows) = headerRow # take 24 dataRows"
    and "rowCount (convertRows stringify ns options rows) = length dataRows"
proof -
  have h0: "0 \<le> hri" unfolding hri_def by (simp add: clampNumber_def)
  have sl: "js_slice_from rows (hri + 1) = drop (nat hri + 1) rows"
    using h0 js_slice_from_drop[of "hri + 1" rows] by (simp add: nat_add_distrib)
  have hr: "(case js_index rows hri of None \<Rightarrow> [] | Some r \<Rightarrow> r) = headerRow"
    unfolding headerRow_def by (rule headerRow_read) (simp add: hri_def)
  have flt: "(\<lambda>r. if skipEmptyRows options then \<not> isRowEmpty r else True)
               = (\<lambda>r. skipEmptyRows options \<longrightarrow> \<not> isRowEmpty r)"
    by auto
  show "data (convertRows stringify ns options rows)
           = ObjectData (map (rowObject (normalizeHeaders ns headerRow)) dataRows)"
    using assms(1) hr sl
    by (simp add: convertRows_def Let_def hri_def[symmetric] flt dataRows_def)
  show "previewRows (convertRows stringify ns options rows) = headerRow # take 24 dataRows"
    using assms(1) hr sl
    by (simp add: convertRows_def Let_def hri_def[symmetric] flt dataRows_def js_slice_take)
  show "rowCount (convertRows stringify ns options rows) = length dataRows"
    using assms(1) hr sl
    by (simp add: convertRows_def Let_def hri_def[symmetric] flt dataRows_def)
qed

lemma cellOrEmpty_eq:
  "cellOrEmpty r i = (if i < length r \<and> r ! i \<noteq> JNull then r ! i else JString [])"
  by (cases "r ! i") (simp_all add: cellOrEmpty_def js_index_def)

lemmas object_eval =
  rowObject_def objectLoop.simps assign_def obj_set_def cellOrEmpty_def js_index_def

text \<open>
  C7. The preview never has more than 25 rows. In objects mode it is the header row (the row
  at the clamped index, or \<open>[]\<close> for the empty grid) followed by the first 24 data rows; in
  arrays mode it is the first 25 of the rows kept by the filter.
\<close>

theorem previewRows_capped:
  "length (previewRows (convertRows stringify ns options rows)) \<le> 25
   \<and> (outputMode options = Objects \<longrightarrow>
        previewRows (convertRows stringify ns options rows) =
          (let hri = nat (headerRowIndex (convertRows stringify ns options rows))
           in (if rows = [] then [] else rows ! hri)
                # take 24 (filter (\<lambda>r. skipEmptyRows options \<longrightarrow> \<not> isRowEmpty r) (drop (hri + 1) rows))))
   \<and> (outputMode options = Arrays \<longrightarrow>
        previewRows (convertRows stringify ns options rows) =
          take 25 (if skipEmptyRows options then filter (\<lambda>r. \<not> isRowEmpty r) rows else rows))"
proof (cases "outputMode options")
  case Objects
  then show ?thesis
    by (simp add: convertRows_Objects(2) headerRowIndex_convertRows Let_def)
next
  case Arrays
  then show ?thesis by (simp add: convertRows_Arrays(2))
qed

theorem previewRows_capped_witness:
  "previewRows (convertRows (\<lambda>d n. []) showInt
      \<lparr>sheetName = js ''S'', outputMode = Objects, headerRowNumber = 1,
       skipEmptyRows = True, pretty = True\<rparr>
      (replicate 1000 [JString (js ''a'')]))
     = replicate 25 [JString (js ''a'')]
   \<and> previewRows (convertRows (\<lambda>d n. []) showInt
      \<lparr>sheetName = js ''S'', outputMode = Arrays, headerRowNumber = 1,
       skipEmptyRows = True, pretty = True\<rparr>
      (replicate 1000 [JString (js ''a'')]))
     = replicate 25 [JString (js ''a'')]"
proof -
  have ne: "\<not> isRowEmpty [JString (js ''a'') :: int cell]"
    by (simp add: isRowEmpty_def trim_def js_def isWhiteSpace_def)
  have r: "replicate 25 x = x # replicate 24 x" for x :: "int row"
    by (simp add: numeral_eq_Suc)
  show ?thesis
    using previewRows_capped[where stringify = "\<lambda>d n. []" and ns = showInt
            and options = "\<lparr>sheetName = js ''S'', outputMode = Objects, headerRowNumber = 1,
                            skipEmptyRows = True, pretty = True\<rparr>"
            and rows = "replicate 1000 [JString (js ''a'')]"]
          previewRows_capped[where stringify = "\<lambda>d n. []" and ns = showInt
            and options = "\<lparr>sheetName = js ''S'', outputMode = Arrays, headerRowNumber = 1,
                            skipEmptyRows = True, pretty = True\<rparr>"
            and rows = "replicate 1000 [JString (js ''a'')]"]
    by (simp add: headerRowIndex_convertRows clampNumber_def ne r Let_def)
qed

lemma ex_headers:
  "normalizeHeaders ns [JString (js ''Name''), JString (js ''Age'')] = [js ''Name'', js ''Age'']"
  by (simp add: header_eval)

lemma ex_empty:
  "\<not> isRowEmpty [JString (js ''Ana''), JString (js ''30'') :: 'n cell]"
  "\<not> isRowEmpty [JString (js ''Ana'') :: 'n cell]"
  "isRowEmpty [JString [], JString [] :: 'n cell]"
  by (simp_all add: isRowEmpty_def trim_def js_def isWhiteSpace_def)

lemma ex_object:
  "rowObject [js ''Name'', js ''Age''] [JString (js ''Ana''), JString (js ''30'')]
     = [js ''Name'' \<mapsto> JString (js ''Ana''), js ''Age'' \<mapsto> JString (js ''30'')]"
  "rowObject [js ''Name'', js ''Age''] [JString (js ''Ana'')]
     = [js ''Name'' \<mapsto> JString (js ''Ana''), js ''Age'' \<mapsto> JString []]"
  "rowObject [js ''Name'', js ''Age''] [JString [], JString []]
     = [js ''Name'' \<mapsto> JString [], js ''Age'' \<mapsto> JString []]"
  by (simp_all add: object_eval js_def)

text \<open>
  C3, as amended. In objects mode the data rows are the rows strictly after the clamped
  header row, without the empty ones when \<open>skipEmptyRows\<close> is set; the data is the list of
  one object for each data row, in row order, and \<open>rowCount\<close> is their number. Each object
  is read from the first \<open>length headers\<close> cells of its row only and has no key outside
  \<open>headers\<close>. For every position \<open>i\<close> whose key \<open>headers[i]\<close> is not emitted again at a later
  position and is not \<open>__proto__\<close>, the object binds \<open>headers[i]\<close> to the row's cell \<open>i\<close>, or
  to the empty string when that cell is null or the row is shorter. The grid
  \<open>[["Name","Age"],["Ana","30"],["",""]]\<close> with header row 1 and \<open>skipEmptyRows\<close> gives
  \<open>[{"Name":"Ana","Age":"30"}]\<close> and the row count 1.
\<close>

theorem convertRows_objects_mode:
  fixes rows :: "'n grid" and options :: ConvertOptions and ns :: "'n \<Rightarrow> jsstring"
  assumes "outputMode options = Objects"
  defines "hri \<equiv> nat (clampNumber (headerRowNumber options - 1) 0 (max 0 (int (length rows) - 1)))"
  defines "headers \<equiv> normalizeHeaders ns (if rows = [] then [] else rows ! hri)"
  defines "dataRows \<equiv> filter (\<lambda>r. skipEmptyRows options \<longrightarrow> \<not> isRowEmpty r) (drop (hri + 1) rows)"
  shows "(\<exists>objects.
            data (convertRows stringify ns options rows) = ObjectData objects
          \<and> length objects = length dataRows
          \<and> rowCount (convertRows stringify ns options rows) = length dataRows
          \<and> (\<forall>n < length dataRows.
                objects ! n = rowObject headers (take (length headers) (dataRows ! n))
              \<and> dom (objects ! n) \<subseteq> set headers
              \<and> (\<forall>i < length headers.
                    headers ! i \<noteq> js ''__proto__''
                    \<and> (\<forall>m. i < m \<and> m < length headers \<longrightarrow> headers ! m \<noteq> headers ! i)
                    \<longrightarrow> (objects ! n) (headers ! i) =
                          Some (if i < length (dataRows ! n) \<and> dataRows ! n ! i \<noteq> JNull
                                then dataRows ! n ! i else JString []))))
       \<and> data (convertRows stringifyInt showInt
            \<lparr>sheetName = sheet, outputMode = Objects, headerRowNumber = 1,
             skipEmptyRows = True, pretty = indented\<rparr>
            [[JString (js ''Name''), JString (js ''Age'')],
             [JString (js ''Ana''), JString (js ''30'')],
             [JString [], JString []]])
           = ObjectData [[js ''Name'' \<mapsto> JString (js ''Ana''), js ''Age'' \<mapsto> JString (js ''30'')]]
       \<and> rowCount (convertRows stringifyInt showInt
            \<lparr>sheetName = sheet, outputMode = Objects, headerRowNumber = 1,
             skipEmptyRows = True, pretty = indented\<rparr>
            [[JString (js ''Name''), JString (js ''Age'')],
             [JString (js ''Ana''), JString (js ''30'')],
             [JString [], JString []]]) = 1"
proof -
  let ?res = "convertRows stringify ns options rows"
  let ?objects = "map (rowObject headers) dataRows"
  have d: "data ?res = ObjectData ?objects"
    using convertRows_Objects(1)[OF assms(1), of stringify ns rows]
    by (simp add: headers_def dataRows_def hri_def)
  have c: "rowCount ?res = length dataRows"
    using convertRows_Objects(3)[OF assms(1), of stringify ns rows]
    by (simp add: dataRows_def hri_def)
  have each: "\<forall>n < length dataRows.
                ?objects ! n = rowObject headers (take (length headers) (dataRows ! n))
              \<and> dom (?objects ! n) \<subseteq> set headers
              \<and> (\<forall>i < length headers.
                    headers ! i \<noteq> js ''__proto__''
                    \<and> (\<forall>m. i < m \<and> m < length headers \<longrightarrow> headers ! m \<noteq> headers ! i)
                    \<longrightarrow> (?objects ! n) (headers ! i) =
                          Some (if i < length (dataRows ! n) \<and> dataRows ! n ! i \<noteq> JNull
                                then dataRows ! n ! i else JString []))"
    by (simp add: rowObject_take rowObject_dom rowObject_last cellOrEmpty_eq)
  have ex1: "data (convertRows stringifyInt showInt
            \<lparr>sheetName = sheet, outputMode = Objects, headerRowNumber = 1,
             skipEmptyRows = True, pretty = indented\<rparr>
            [[JString (js ''Name''), JString (js ''Age'')],
             [JString (js ''Ana''), JString (js ''30'')],
             [JString [], JString []]])
           = ObjectData [[js ''Name'' \<mapsto> JString (js ''Ana''), js ''Age'' \<mapsto> JString (js ''30'')]]"
    by (simp add: convertRows_Objects(1) clampNumber_def ex_headers ex_empty ex_object)
  have ex2: "rowCount (convertRows stringifyInt showInt
            \<lparr>sheetName = sheet, outputMode = Objects, headerRowNumber = 1,
             skipEmptyRows = True, pretty = indented\<rparr>
            [[JString (js ''Name''), JString (js ''Age'')],
             [JString (js ''Ana''), JString (js ''30'')],
             [JString [], JString []]]) = 1"
    by (simp add: convertRows_Objects(3) clampNumber_def ex_empty)
  show ?thesis
    by (intro conjI exI[of _ ?objects] d c each length_map ex1 ex2)
qed

theorem convertRows_objects_mode_witness:
  "data (convertRows (\<lambda>d n. []) showInt
      \<lparr>sheetName = js ''S'', outputMode = Objects, headerRowNumber = 1,
       skipEmptyRows = False, pretty = True\<rparr>
      [[JString (js ''Name''), JString (js ''Age'')],
       [JString (js ''Ana'')],
       [JString [], JString []]])
     = ObjectData [[js ''Name'' \<mapsto> JString (js ''Ana''), js ''Age'' \<mapsto> JString []],
                   [js ''Name'' \<mapsto> JString [], js ''Age'' \<mapsto> JString []]]
   \<and> rowCount (convertRows (\<lambda>d n. []) showInt
      \<lparr>sheetName = js ''S'', outputMode = Objects, headerRowNumber = 1,
       skipEmptyRows = False, pretty = True\<rparr>
      [[JString (js ''Name''), JString (js ''Age'')],
       [JString (js ''Ana'')],
       [JString [], JString []]]) = 2"
  using convertRows_objects_mode[where stringify = "\<lambda>d n. []" and ns = showInt
          and options = "\<lparr>sheetName = js ''S'', outputMode = Objects, headerRowNumber = 1,
                          skipEmptyRows = False, pretty = True\<rparr>"
          and rows = "[[JString (js ''Name''), JString (js ''Age'')],
                       [JString (js ''Ana'')],
                       [JString [], JString []]]"]
  by (simp add: convertRows_Objects clampNumber_def ex_headers ex_object)

lemma quirk_headers:
  "normalizeHeaders ns [JString (js ''X''), JString (js ''X_2''), JString (js ''X''),
                        JString (js ''N''), JString (js ''__proto__'')]
     = [js ''X'', js ''X_2'', js ''X_2'', js ''N'', js ''__proto__'']"
  by (simp add: header_eval)

lemma quirk_object:
  "rowObject [js ''X'', js ''X_2'', js ''X_2'', js ''N'', js ''__proto__'']
       [JString (js ''a''), JString (js ''b''), JString (js ''c''), JNull, JString (js ''d'')]
     = [js ''X'' \<mapsto> JString (js ''a''), js ''X_2'' \<mapsto> JString (js ''c''), js ''N'' \<mapsto> JString []]"
  by (simp add: object_eval js_def)

lemma quirk_row:
  "\<not> isRowEmpty [JString (js ''a''), JString (js ''b''), JString (js ''c''), JNull, JString (js ''d'') :: 'n cell]"
  by (simp add: isRowEmpty_def trim_def js_def isWhiteSpace_def)

text \<open>
  The claim as it is written fails on the grid
  \<open>[["X","X_2","X","N","__proto__"],["a","b","c",null,"d"]]\<close>: the keys are
  \<open>["X","X_2","X_2","N","__proto__"]\<close> and the object is \<open>{"X":"a","X_2":"c","N":""}\<close>. The key
  at position 1 is bound to the cell at position 2, the null cell at position 3 is bound
  as the empty string although the row is not shorter, and the key at position 4 is not
  bound at all.
\<close>

theorem convertRows_objects_mode_counterexample:
  "normalizeHeaders showInt [JString (js ''X''), JString (js ''X_2''), JString (js ''X''),
                             JString (js ''N''), JString (js ''__proto__'')]
     = [js ''X'', js ''X_2'', js ''X_2'', js ''N'', js ''__proto__'']
   \<and> data (convertRows (\<lambda>d n. []) showInt
        \<lparr>sheetName = js ''S'', outputMode = Objects, headerRowNumber = 1,
         skipEmptyRows = True, pretty = True\<rparr>
        [[JString (js ''X''), JString (js ''X_2''), JString (js ''X''),
          JString (js ''N''), JString (js ''__proto__'')],
         [JString (js ''a''), JString (js ''b''), JString (js ''c''), JNull, JString (js ''d'')]])
       = ObjectData [[js ''X'' \<mapsto> JString (js ''a''), js ''X_2'' \<mapsto> JString (js ''c''),
                      js ''N'' \<mapsto> JString []]]
   \<and> [js ''X'' \<mapsto> JString (js ''a''), js ''X_2'' \<mapsto> JString (js ''c''),
        js ''N'' \<mapsto> (JString [] :: int cell)] (js ''X_2'') \<noteq> Some (JString (js ''b''))
   \<and> [js ''X'' \<mapsto> JString (js ''a''), js ''X_2'' \<mapsto> JString (js ''c''),
        js ''N'' \<mapsto> (JString [] :: int cell)] (js ''N'') \<noteq> Some JNull
   \<and> [js ''X'' \<mapsto> JString (js ''a''), js ''X_2'' \<mapsto> JString (js ''c''),
        js ''N'' \<mapsto> (JString [] :: int cell)] (js ''__proto__'') = None"
proof -
  have "data (convertRows (\<lambda>d n. []) showInt
        \<lparr>sheetName = js ''S'', outputMode = Objects, headerRowNumber = 1,
         skipEmptyRows = True, pretty = True\<rparr>
        [[JString (js ''X''), JString (js ''X_2''), JString (js ''X''),
          JString (js ''N''), JString (js ''__proto__'')],
         [JString (js ''a''), JString (js ''b''), JString (js ''c''), JNull, JString (js ''d'')]])
       = ObjectData [[js ''X'' \<mapsto> JString (js ''a''), js ''X_2'' \<mapsto> JString (js ''c''),
                      js ''N'' \<mapsto> JString []]]"
    by (simp add: convertRows_Objects(1) clampNumber_def quirk_headers quirk_object quirk_row)
  then show ?thesis
    by (simp add: quirk_headers) (simp add: js_def)
qed






section \<open>The runtime model on valid grids\<close>

lemma toStringV_scalar:
  "scalar v \<Longrightarrow> toStringV ns (coalesce v (VString [])) = stringOf ns (toCell v)"
  by (cases v) (simp_all add: scalar_def coalesce_def nullish_def)

lemma baseFromD_scalar:
  "list_all scalar vs \<Longrightarrow> baseFromD ns i vs = baseFrom ns i (map toCell vs)"
  by (induction vs arbitrary: i) (simp_all add: headerTextD_def headerText_def toStringV_scalar)

lemma normalizeHeadersD_valid:
  "validRow row \<Longrightarrow> normalizeHeadersD ns row = Inr (normalizeHeaders ns (toRow row))"
  by (cases row)
     (simp_all add: validRow_def normalizeHeadersD_def arrayReceiver_def normalizeHeaders_def
        base_def toRow_def baseFromD_scalar)

lemma cellEmptyD_scalar: "scalar v \<Longrightarrow> cellEmptyD v = Inr (cellEmpty (toCell v))"
  by (cases v) (simp_all add: scalar_def cellEmptyD_def nullish_def typeofString_def trimMethod_def)

lemma everyD_scalar:
  "list_all scalar vs \<Longrightarrow> everyD cellEmptyD vs = Inr (list_all cellEmpty (map toCell vs))"
  by (induction vs) (simp_all add: cellEmptyD_scalar)

lemma isRowEmptyD_valid:
  "validRow row \<Longrightarrow> isRowEmptyD row = Inr (isRowEmpty (toRow row))"
  by (cases row)
     (simp_all add: validRow_def isRowEmptyD_def arrayReceiver_def isRowEmpty_def toRow_def
        everyD_scalar)

lemma keepRowD_valid:
  "validRow r \<Longrightarrow> keepRowD skip r = Inr (skip \<longrightarrow> \<not> isRowEmpty (toRow r))"
  by (simp add: keepRowD_def isRowEmptyD_valid)

lemma filterD_total:
  "(\<forall>x \<in> set xs. f x = Inr (P x)) \<Longrightarrow> filterD f xs = Inr (filter P xs)"
  by (induction xs) simp_all

lemma filterD_valid:
  "list_all validRow rows \<Longrightarrow>
     filterD (keepRowD skip) rows = Inr (filter (\<lambda>r. skip \<longrightarrow> \<not> isRowEmpty (toRow r)) rows)"
  by (rule filterD_total) (simp add: list_all_iff keepRowD_valid)

lemma toObject_obj_setD: "toObject (obj_setD obj k v) = obj_set (toObject obj) k (toCell v)"
  by (rule ext) (simp add: toObject_def obj_setD_def obj_set_def)

lemma js_index_map: "js_index (map f xs) i = map_option f (js_index xs i)"
  by (auto simp add: js_index_def nat_less_iff)

lemma toCell_element:
  "list_all scalar xs \<Longrightarrow>
     toCell (coalesce (elementOf xs (int i)) (VString [])) = cellOrEmpty (map toCell xs) i"
proof (cases "i < length xs")
  case False
  then show ?thesis
    by (simp add: elementOf_def cellOrEmpty_def js_index_def coalesce_def nullish_def)
next
  case True
  assume "list_all scalar xs"
  with True have "scalar (xs ! i)" by (simp add: list_all_length)
  with True show ?thesis
    by (cases "xs ! i")
       (simp_all add: elementOf_def cellOrEmpty_def js_index_def coalesce_def nullish_def scalar_def)
qed

lemma assignD_valid:
  assumes "validRow r"
  shows "\<exists>obj'. assignD headers r i obj = Inr obj'
           \<and> toObject obj' = assign headers (toRow r) i (toObject obj)"
proof -
  from assms obtain xs where r: "r = VArray xs" and xs: "list_all scalar xs"
    by (cases r) (simp_all add: validRow_def)
  show ?thesis
    by (simp add: r assignD_def indexV_def assign_def toObject_obj_setD toCell_element[OF xs] toRow_def)
qed

lemma objectLoopD_valid:
  assumes "validRow r"
  shows "\<exists>obj'. objectLoopD headers r i obj = Inr obj'
           \<and> toObject obj' = objectLoop headers (toRow r) i (toObject obj)"
  using assms
proof (induction headers r i obj rule: objectLoopD.induct)
  case (1 headers r i obj)
  show ?case
  proof (cases "i < length headers")
    case False
    then show ?thesis
      by (subst objectLoopD.simps, subst objectLoop.simps) simp
  next
    case True
    from assignD_valid[OF "1.prems", of headers i obj] obtain o1
      where a: "assignD headers r i obj = Inr o1"
        and t: "toObject o1 = assign headers (toRow r) i (toObject obj)"
      by blast
    from "1.IH"[OF True a "1.prems"] obtain o2
      where l: "objectLoopD headers r (i + 1) o1 = Inr o2"
        and u: "toObject o2 = objectLoop headers (toRow r) (i + 1) (toObject o1)"
      by blast
    have "objectLoopD headers r i obj = Inr o2"
      using True a l by (subst objectLoopD.simps) simp
    moreover have "toObject o2 = objectLoop headers (toRow r) i (toObject obj)"
      using True t u by (subst objectLoop.simps) simp
    ultimately show ?thesis by blast
  qed
qed

lemma toObject_empty: "toObject Map.empty = Map.empty"
  by (simp add: toObject_def)

lemma rowObjectD_valid:
  "validRow r \<Longrightarrow>
     \<exists>obj. rowObjectD headers r = Inr obj \<and> toObject obj = rowObject headers (toRow r)"
  using objectLoopD_valid[of r headers 0 Map.empty]
  by (simp add: rowObjectD_def rowObject_def toObject_empty)

lemma mapD_rowObjectD_valid:
  "list_all validRow rs \<Longrightarrow>
     \<exists>objs. mapD (rowObjectD headers) rs = Inr objs
          \<and> map toObject objs = map (\<lambda>r. rowObject headers (toRow r)) rs"
proof (induction rs)
  case Nil
  then show ?case by simp
next
  case (Cons r rs)
  then obtain obj where o: "rowObjectD headers r = Inr obj"
    "toObject obj = rowObject headers (toRow r)"
    using rowObjectD_valid[of r headers] by auto
  from Cons obtain objs where os: "mapD (rowObjectD headers) rs = Inr objs"
    "map toObject objs = map (\<lambda>r. rowObject headers (toRow r)) rs"
    by auto
  show ?case using o os by simp
qed

lemma sliceBound_map: "sliceBound (map f xs) k = sliceBound xs k"
  by (simp add: sliceBound_def)

lemma js_slice_map: "js_slice (map f xs) a b = map f (js_slice xs a b)"
  by (simp add: js_slice_def sliceBound_map take_map drop_map Let_def)

lemma js_slice_from_map: "js_slice_from (map f xs) a = map f (js_slice_from xs a)"
  by (simp add: js_slice_from_def sliceBound_map drop_map)

lemma filter_toRow:
  "filter P (map toRow rows) = map toRow (filter (\<lambda>r. P (toRow r)) rows)"
  by (simp add: filter_map comp_def)

lemma validGrid_slice_from: "list_all validRow rows \<Longrightarrow> list_all validRow (js_slice_from rows k)"
  by (auto simp add: js_slice_from_def list_all_iff dest: in_set_dropD)

lemma headerRow_valid:
  fixes rows :: "'n jsval list" and i :: int
  assumes "list_all validRow rows"
  defines "hr \<equiv> coalesce (elementOf rows i) (VArray [])"
  shows "validRow hr"
    and "toRow hr = (case js_index (map toRow rows) i of None \<Rightarrow> [] | Some r \<Rightarrow> r)"
proof -
  show "validRow hr"
  proof (cases "js_index rows i")
    case None
    then show ?thesis
      by (simp add: hr_def elementOf_def coalesce_def nullish_def validRow_def)
  next
    case (Some r)
    then have "r \<in> set rows" by (auto simp add: js_index_def split: if_splits)
    with assms(1) have v: "validRow r" by (simp add: list_all_iff)
    then have "\<not> nullish r" by (auto simp add: validRow_def nullish_def)
    with Some v show ?thesis by (simp add: hr_def elementOf_def coalesce_def)
  qed
  show "toRow hr = (case js_index (map toRow rows) i of None \<Rightarrow> [] | Some r \<Rightarrow> r)"
  proof (cases "js_index rows i")
    case None
    then show ?thesis
      by (simp add: hr_def elementOf_def coalesce_def nullish_def toRow_def js_index_map)
  next
    case (Some r)
    then have "r \<in> set rows" by (auto simp add: js_index_def split: if_splits)
    with assms(1) have v: "validRow r" by (simp add: list_all_iff)
    then have "\<not> nullish r" by (auto simp add: validRow_def nullish_def)
    with Some show ?thesis by (simp add: hr_def elementOf_def coalesce_def js_index_map)
  qed
qed

lemma convertRowsD_Arrays:
  assumes v: "list_all validRow rows" and m: "outputMode options = Arrays"
  shows "\<exists>res. convertRowsD stringify ns options rows = Inr res
          \<and> jsonD res = stringify (dataD res) (if pretty options then 2 else 0)
          \<and> toData (dataD res) = data (convertRows st ns options (map toRow rows))
          \<and> map toRow (previewRowsD res) = previewRows (convertRows st ns options (map toRow rows))
          \<and> rowCountD res = rowCount (convertRows st ns options (map toRow rows))
          \<and> headerRowIndexD res = headerRowIndex (convertRows st ns options (map toRow rows))"
proof -
  have f: "filterD (keepRowD True) rows = Inr (filter (\<lambda>r. \<not> isRowEmpty (toRow r)) rows)"
    using filterD_valid[OF v, of True] by simp
  show ?thesis
    using m f
    by (simp add: convertRowsD_def convertRows_def Let_def toData_def js_slice_map filter_toRow)
qed

lemma convertRowsD_Objects:
  assumes v: "list_all validRow rows" and m: "outputMode options = Objects"
  shows "\<exists>res. convertRowsD stringify ns options rows = Inr res
          \<and> jsonD res = stringify (dataD res) (if pretty options then 2 else 0)
          \<and> toData (dataD res) = data (convertRows st ns options (map toRow rows))
          \<and> map toRow (previewRowsD res) = previewRows (convertRows st ns options (map toRow rows))
          \<and> rowCountD res = rowCount (convertRows st ns options (map toRow rows))
          \<and> headerRowIndexD res = headerRowIndex (convertRows st ns options (map toRow rows))"
proof -
  define hri where "hri = clampNumber (headerRowNumber options - 1) 0 (max 0 (int (length rows) - 1))"
  define hr where "hr = coalesce (elementOf rows hri) (VArray [])"
  define headers where "headers = normalizeHeaders ns (toRow hr)"
  define dr where "dr = filter (\<lambda>r. skipEmptyRows options \<longrightarrow> \<not> isRowEmpty (toRow r))
                          (js_slice_from rows (hri + 1))"
  have hv: "validRow hr"
    and ht: "toRow hr = (case js_index (map toRow rows) hri of None \<Rightarrow> [] | Some r \<Rightarrow> r)"
    unfolding hr_def by (rule headerRow_valid[OF v])+
  have nh: "normalizeHeadersD ns hr = Inr headers"
    unfolding headers_def by (rule normalizeHeadersD_valid[OF hv])
  have vs: "list_all validRow (js_slice_from rows (hri + 1))"
    by (rule validGrid_slice_from[OF v])
  have fd: "filterD (keepRowD (skipEmptyRows options)) (js_slice_from rows (hri + 1)) = Inr dr"
    unfolding dr_def by (rule filterD_valid[OF vs])
  have vd: "list_all validRow dr"
    using vs by (simp add: dr_def list_all_iff)
  from mapD_rowObjectD_valid[OF vd, of headers] obtain objs
    where mo: "mapD (rowObjectD headers) dr = Inr objs"
      and to: "map toObject objs = map (\<lambda>r. rowObject headers (toRow r)) dr"
    by blast
  have lo: "length objs = length dr"
    using to by (metis length_map)
  have run: "convertRowsD stringify ns options rows =
               Inr \<lparr>jsonD = stringify (ObjectDataD objs) (if pretty options then 2 else 0),
                    dataD = ObjectDataD objs,
                    previewRowsD = hr # js_slice dr 0 24,
                    rowCountD = length objs,
                    headerRowIndexD = hri\<rparr>"
    using m nh fd mo
    by (simp add: convertRowsD_def Let_def hri_def[symmetric] hr_def[symmetric])
  have flt: "(\<lambda>r. if skipEmptyRows options then \<not> isRowEmpty r else True)
               = (\<lambda>r. skipEmptyRows options \<longrightarrow> \<not> isRowEmpty r)"
    by auto
  have dt: "filter (\<lambda>r. skipEmptyRows options \<longrightarrow> \<not> isRowEmpty r)
              (js_slice_from (map toRow rows) (hri + 1)) = map toRow dr"
    by (simp add: js_slice_from_map filter_toRow dr_def)
  have typed: "convertRows st ns options (map toRow rows) =
                 \<lparr>json = st (ObjectData (map (rowObject headers) (map toRow dr)))
                           (if pretty options then 2 else 0),
                  data = ObjectData (map (rowObject headers) (map toRow dr)),
                  previewRows = toRow hr # js_slice (map toRow dr) 0 24,
                  rowCount = length dr,
                  headerRowIndex = hri\<rparr>"
    using m
    by (simp add: convertRows_def Let_def hri_def[symmetric] ht[symmetric] headers_def[symmetric]
          flt dt)
  show ?thesis
    using to lo by (simp add: run typed toData_def js_slice_map comp_def)
qed

text \<open>
  C6. On every valid grid (every row an array, every cell \<^verbatim>\<open>undefined\<close>, \<^verbatim>\<open>null\<close>, a string, a
  number or a boolean; the empty grid included) and for every configuration, whatever the
  header row number, the conversion as the runtime executes it does not throw: it returns
  a record, whose data, preview, row count and header row index are those of the typed
  model, and \<open>convertResult\<close> returns that record when the sheet has the grid. The header
  row index is \<open>clampNumber\<close> of the header row number, which is arithmetic and cannot
  fail. On every valid row, the empty row included, \<open>normalizeHeaders\<close> and
  \<open>isRowEmpty\<close> return the result of the typed model and do not throw.
\<close>

theorem conversion_never_throws:
  assumes "validGrid rows"
  shows "(\<exists>res. convertRowsD stringify ns options rows = Inr res
            \<and> jsonD res = stringify (dataD res) (if pretty options then 2 else 0)
            \<and> toData (dataD res) = data (convertRows st ns options (map toRow rows))
            \<and> map toRow (previewRowsD res) = previewRows (convertRows st ns options (map toRow rows))
            \<and> rowCountD res = rowCount (convertRows st ns options (map toRow rows))
            \<and> headerRowIndexD res
                 = clampNumber (headerRowNumber options - 1) 0 (max 0 (int (length rows) - 1))
            \<and> 0 \<le> headerRowIndexD res \<and> headerRowIndexD res \<le> max 0 (int (length rows) - 1)
            \<and> (sheetName options \<noteq> [] \<and> sheets (sheetName options) = Some rows \<longrightarrow>
                  convertResultD stringify ns options (Some sheets) = Inr (Some res)))
       \<and> (validRow row \<longrightarrow>
            normalizeHeadersD ns row = Inr (normalizeHeaders ns (toRow row))
          \<and> isRowEmptyD row = Inr (isRowEmpty (toRow row)))
       \<and> normalizeHeadersD ns (VArray []) = Inr []
       \<and> isRowEmptyD (VArray []) = Inr True"
proof -
  from assms have v: "list_all validRow rows" by (simp add: validGrid_def)
  obtain res where r: "convertRowsD stringify ns options rows = Inr res"
    "jsonD res = stringify (dataD res) (if pretty options then 2 else 0)"
    "toData (dataD res) = data (convertRows st ns options (map toRow rows))"
    "map toRow (previewRowsD res) = previewRows (convertRows st ns options (map toRow rows))"
    "rowCountD res = rowCount (convertRows st ns options (map toRow rows))"
    "headerRowIndexD res = headerRowIndex (convertRows st ns options (map toRow rows))"
    using convertRowsD_Arrays[OF v, of options stringify ns st]
          convertRowsD_Objects[OF v, of options stringify ns st]
    by (cases "outputMode options") blast+
  have h: "headerRowIndexD res
             = clampNumber (headerRowNumber options - 1) 0 (max 0 (int (length rows) - 1))"
    using r(6) by (simp add: headerRowIndex_convertRows)
  have b: "0 \<le> headerRowIndexD res" "headerRowIndexD res \<le> max 0 (int (length rows) - 1)"
    unfolding h by (simp_all add: clampNumber_def)
  have c: "sheetName options \<noteq> [] \<and> sheets (sheetName options) = Some rows \<longrightarrow>
             convertResultD stringify ns options (Some sheets) = Inr (Some res)"
    using r(1) by (simp add: convertResultD_def)
  have rowpart: "validRow row \<longrightarrow>
            normalizeHeadersD ns row = Inr (normalizeHeaders ns (toRow row))
          \<and> isRowEmptyD row = Inr (isRowEmpty (toRow row))"
    by (simp add: normalizeHeadersD_valid isRowEmptyD_valid)
  have e: "normalizeHeadersD ns (VArray []) = Inr []" "isRowEmptyD (VArray []) = Inr True"
    by (simp_all add: normalizeHeadersD_def isRowEmptyD_def arrayReceiver_def)
  show ?thesis
    using r(1-5) h b c rowpart e by blast
qed

theorem conversion_never_throws_witness:
  "validGrid [VArray [VString (js ''Name''), VNull], VArray [VNumber (7::int), VUndefined],
              VArray [VNull, VString (js ''  '')]]
   \<and> (\<exists>res. convertRowsD (\<lambda>d n. []) showInt
          \<lparr>sheetName = js ''S'', outputMode = Objects, headerRowNumber = - 3,
           skipEmptyRows = True, pretty = True\<rparr>
          [VArray [VString (js ''Name''), VNull], VArray [VNumber 7, VUndefined],
           VArray [VNull, VString (js ''  '')]] = Inr res
        \<and> rowCountD res = 1 \<and> headerRowIndexD res = 0
        \<and> toData (dataD res)
            = ObjectData [[js ''Name'' \<mapsto> JNumber 7, js ''Column2'' \<mapsto> JString []]])
   \<and> validGrid ([] :: int jsval list)
   \<and> (\<exists>res. convertRowsD (\<lambda>d n. []) showInt
          \<lparr>sheetName = js ''S'', outputMode = Objects, headerRowNumber = 99,
           skipEmptyRows = True, pretty = True\<rparr> [] = Inr res
        \<and> rowCountD res = 0 \<and> headerRowIndexD res = 0 \<and> toData (dataD res) = ObjectData [])"
proof -
  let ?o1 = "\<lparr>sheetName = js ''S'', outputMode = Objects, headerRowNumber = - 3,
               skipEmptyRows = True, pretty = True\<rparr>"
  let ?o2 = "\<lparr>sheetName = js ''S'', outputMode = Objects, headerRowNumber = 99,
               skipEmptyRows = True, pretty = True\<rparr>"
  let ?g = "[VArray [VString (js ''Name''), VNull], VArray [VNumber (7::int), VUndefined],
             VArray [VNull, VString (js ''  '')]]"
  have v1: "validGrid ?g" and v2: "validGrid ([] :: int jsval list)"
    by (simp_all add: validGrid_def validRow_def scalar_def)
  have hd: "normalizeHeaders showInt [JString (js ''Name''), JNull] = [js ''Name'', js ''Column2'']"
    by (simp add: header_eval)
  have e1: "\<not> isRowEmpty [JNumber (7::int), JNull]" and e2: "isRowEmpty [JNull, JString (js ''  '') :: int cell]"
    by (simp_all add: isRowEmpty_def trim_def js_def isWhiteSpace_def)
  have ob: "rowObject [js ''Name'', js ''Column2''] [JNumber (7::int), JNull]
              = [js ''Name'' \<mapsto> JNumber 7, js ''Column2'' \<mapsto> JString []]"
    by (simp add: object_eval js_def)
  have t1: "data (convertRows (\<lambda>d n. []) showInt ?o1 (map toRow ?g))
              = ObjectData [[js ''Name'' \<mapsto> JNumber 7, js ''Column2'' \<mapsto> JString []]]"
    "rowCount (convertRows (\<lambda>d n. []) showInt ?o1 (map toRow ?g)) = 1"
    by (simp_all add: convertRows_Objects clampNumber_def toRow_def hd e1 e2 ob)
  have t2: "data (convertRows (\<lambda>d n. []) showInt ?o2 (map toRow ([] :: int jsval list))) = ObjectData []"
    "rowCount (convertRows (\<lambda>d n. []) showInt ?o2 (map toRow ([] :: int jsval list))) = 0"
    by (simp_all add: convertRows_Objects clampNumber_def)
  show ?thesis
    using conversion_never_throws[OF v1, where stringify = "\<lambda>d n. []" and ns = showInt
            and st = "\<lambda>d n. []" and options = ?o1 and sheets = Map.empty and row = "VArray []"]
          conversion_never_throws[OF v2, where stringify = "\<lambda>d n. []" and ns = showInt
            and st = "\<lambda>d n. []" and options = ?o2 and sheets = Map.empty and row = "VArray []"]
          v1 v2 t1 t2
    by (auto simp add: clampNumber_def)
qed

text \<open>
  The failures are real: a row that is \<^verbatim>\<open>null\<close> throws in \<open>isRowEmpty\<close> and in the conversion
  that filters it, a header row that is not an array throws in \<open>normalizeHeaders\<close>, and
  \<^verbatim>\<open>trim\<close> throws on a number, which \<open>isRowEmpty\<close> never reaches.
\<close>

theorem invalid_rows_throw:
  "isRowEmptyD (VNull :: 'n jsval) = Inl TypeError
   \<and> normalizeHeadersD ns (VString s) = Inl TypeError
   \<and> trimMethod (VNumber n) = Inl TypeError
   \<and> cellEmptyD (VNumber n) = Inr False
   \<and> convertRowsD stringify ns
        \<lparr>sheetName = sheet, outputMode = Arrays, headerRowNumber = h,
         skipEmptyRows = True, pretty = indented\<rparr> [VNull] = Inl TypeError
   \<and> convertRowsD stringify ns
        \<lparr>sheetName = sheet, outputMode = Objects, headerRowNumber = h,
         skipEmptyRows = False, pretty = indented\<rparr> [VString s] = Inl TypeError"
  by (simp add: isRowEmptyD_def normalizeHeadersD_def arrayReceiver_def trimMethod_def
        cellEmptyD_def nullish_def typeofString_def convertRowsD_def keepRowD_def Let_def
        clampNumber_def elementOf_def js_index_def coalesce_def)

section \<open>Further properties of the conversion\<close>

text \<open>
  The option \<open>pretty\<close> selects the indentation that the serialiser receives, \<open>2\<close> or \<open>0\<close>, and
  nothing else: the data that is serialised, the preview, the row count and the header row
  index are the same for both settings.
\<close>

theorem pretty_selects_indentation:
  "json (convertRows stringify ns options rows)
     = stringify (data (convertRows stringify ns options rows)) (if pretty options then 2 else 0)
   \<and> data (convertRows stringify ns (options\<lparr>pretty := b\<rparr>) rows)
       = data (convertRows stringify ns options rows)
   \<and> previewRows (convertRows stringify ns (options\<lparr>pretty := b\<rparr>) rows)
       = previewRows (convertRows stringify ns options rows)
   \<and> rowCount (convertRows stringify ns (options\<lparr>pretty := b\<rparr>) rows)
       = rowCount (convertRows stringify ns options rows)
   \<and> headerRowIndex (convertRows stringify ns (options\<lparr>pretty := b\<rparr>) rows)
       = headerRowIndex (convertRows stringify ns options rows)"
  by (simp add: convertRows_def Let_def)

text \<open>
  Arrays mode without the row filter exports the grid as it is; the grid
  \<open>[["a","b"],["1","2"]]\<close> gives itself and the row count 2.
\<close>

theorem arrays_mode_keeps_grid:
  "data (convertRows stringify ns
      \<lparr>sheetName = sheet, outputMode = Arrays, headerRowNumber = h,
       skipEmptyRows = False, pretty = indented\<rparr> rows) = ArrayData rows
   \<and> rowCount (convertRows stringify ns
      \<lparr>sheetName = sheet, outputMode = Arrays, headerRowNumber = h,
       skipEmptyRows = False, pretty = indented\<rparr> rows) = length rows
   \<and> data (convertRows stringify ns
      \<lparr>sheetName = sheet, outputMode = Arrays, headerRowNumber = h,
       skipEmptyRows = False, pretty = indented\<rparr>
      [[JString (js ''a''), JString (js ''b'')], [JString (js ''1''), JString (js ''2'')]])
       = ArrayData [[JString (js ''a''), JString (js ''b'')], [JString (js ''1''), JString (js ''2'')]]
   \<and> rowCount (convertRows stringify ns
      \<lparr>sheetName = sheet, outputMode = Arrays, headerRowNumber = h,
       skipEmptyRows = False, pretty = indented\<rparr>
      [[JString (js ''a''), JString (js ''b'')], [JString (js ''1''), JString (js ''2'')]]) = 2"
  by (simp add: convertRows_Arrays)

text \<open>
  A header row number past the end of a grid that has a row selects the last row as the
  header row, which leaves no data row: the data is empty and the row count is 0. A grid
  of three rows with the header row number 99 has the header row index 2.
\<close>

theorem header_row_past_the_end:
  assumes "outputMode options = Objects" and "rows \<noteq> []"
    and "int (length rows) \<le> headerRowNumber options"
  shows "headerRowIndex (convertRows stringify ns options rows) = int (length rows) - 1
       \<and> data (convertRows stringify ns options rows) = ObjectData []
       \<and> rowCount (convertRows stringify ns options rows) = 0"
proof -
  have h: "clampNumber (headerRowNumber options - 1) 0 (max 0 (int (length rows) - 1))
             = int (length rows) - 1"
    using assms(2,3) by (cases rows) (simp_all add: clampNumber_def)
  have n: "nat (int (length rows) - 1) + 1 = length rows"
    using assms(2) by (cases rows) simp_all
  show ?thesis
    using assms(1) by (simp add: headerRowIndex_convertRows convertRows_Objects h n)
qed

theorem header_row_past_the_end_witness:
  "headerRowIndex (convertRows (\<lambda>d n. []) showInt
      \<lparr>sheetName = js ''S'', outputMode = Objects, headerRowNumber = 99,
       skipEmptyRows = True, pretty = True\<rparr>
      [[JString (js ''a'')], [JString (js ''b'')], [JString (js ''c'')]]) = 2
   \<and> data (convertRows (\<lambda>d n. []) showInt
      \<lparr>sheetName = js ''S'', outputMode = Objects, headerRowNumber = 99,
       skipEmptyRows = True, pretty = True\<rparr>
      [[JString (js ''a'')], [JString (js ''b'')], [JString (js ''c'')]]) = ObjectData []
   \<and> rowCount (convertRows (\<lambda>d n. []) showInt
      \<lparr>sheetName = js ''S'', outputMode = Objects, headerRowNumber = 99,
       skipEmptyRows = True, pretty = True\<rparr>
      [[JString (js ''a'')], [JString (js ''b'')], [JString (js ''c'')]]) = 0"
  using header_row_past_the_end[where stringify = "\<lambda>d n. []" and ns = showInt
          and options = "\<lparr>sheetName = js ''S'', outputMode = Objects, headerRowNumber = 99,
                          skipEmptyRows = True, pretty = True\<rparr>"
          and rows = "[[JString (js ''a'')], [JString (js ''b'')], [JString (js ''c'')]]"]
  by simp

end
